theory Spec2Isabelle
  imports Complex_Main "HOL-Library.Word" "HOL-Library.Log_Nat"
begin

section \<open>The Wikipedia search demo server (main.go)\<close>

text \<open>
  The program is one Go file: a pagination model (\<open>Search\<close>), an upstream client
  (\<open>searchWikipedia\<close>), two handlers (\<open>indexHandler\<close>, \<open>searchHandler\<close>), an adapter
  that turns a returned error into a 500 response (\<open>handlerWithError.ServeHTTP\<close>) and
  a logging middleware (\<open>requestLogger\<close>).

  Go's \<open>int\<close> is taken to be 64 bits wide (amd64, arm64): a two's complement word whose
  \<open>+\<close>, \<open>-\<close> and \<open>*\<close> wrap around and whose comparisons are signed. Strings are byte
  lists. What the program obtains from outside (the parsed URL, the upstream reply, the
  JSON decoder, the template, the correlation identifier, the clock) is a parameter of
  the model, gathered in the record \<open>env\<close>.
\<close>

type_synonym go_int = "64 word"

subsection \<open>Errors\<close>

text \<open>
  An error value is what \<open>errors.New\<close> and \<open>fmt.Errorf\<close> build (a message) or the
  \<open>*strconv.NumError\<close> that \<open>strconv.Atoi\<close> returns (function, input, cause).
  \<open>Error\<close> is the method \<open>err.Error()\<close>. \<open>strconv.Quote\<close> is modelled on bytes:
  printable ASCII is copied, the double quote and the backslash are escaped, control
  bytes are written as Go writes them, and bytes from 0x80 on are copied (they are
  taken to belong to printable UTF-8 runes).
\<close>

datatype error =
    ErrorString string
  | NumError string string error

definition hex_lower :: "nat \<Rightarrow> char" where
  "hex_lower d = ''0123456789abcdef'' ! (d mod 16)"

definition quote_byte :: "char \<Rightarrow> string" where
  "quote_byte c =
     (let n = (of_char c :: nat)
      in if n = 34 then [CHR 0x5C, CHR 0x22]
         else if n = 92 then [CHR 0x5C, CHR 0x5C]
         else if n = 7 then [CHR 0x5C, CHR ''a'']
         else if n = 8 then [CHR 0x5C, CHR ''b'']
         else if n = 12 then [CHR 0x5C, CHR ''f'']
         else if n = 10 then [CHR 0x5C, CHR ''n'']
         else if n = 13 then [CHR 0x5C, CHR ''r'']
         else if n = 9 then [CHR 0x5C, CHR ''t'']
         else if n = 11 then [CHR 0x5C, CHR ''v'']
         else if n < 32 \<or> n = 127 then [CHR 0x5C, CHR ''x'', hex_lower (n div 16), hex_lower n]
         else [c])"

definition Quote :: "string \<Rightarrow> string" where
  "Quote s = [CHR 0x22] @ concat (map quote_byte s) @ [CHR 0x22]"

fun Error :: "error \<Rightarrow> string" where
  "Error (ErrorString m) = m"
| "Error (NumError f n e) = ''strconv.'' @ f @ '': parsing '' @ Quote n @ '': '' @ Error e"

definition ErrSyntax :: error where
  "ErrSyntax = ErrorString ''invalid syntax''"

definition ErrRange :: error where
  "ErrRange = ErrorString ''value out of range''"

subsection \<open>Formatting and parsing integers\<close>

text \<open>The verb \<open>%d\<close> of \<open>fmt.Sprintf\<close> on an \<open>int\<close>: decimal, with a minus sign.\<close>

definition digit_char :: "nat \<Rightarrow> char" where
  "digit_char d = ''0123456789'' ! (d mod 10)"

function string_of_nat :: "nat \<Rightarrow> string" where
  "string_of_nat n =
     (if n < 10 then [digit_char n] else string_of_nat (n div 10) @ [digit_char (n mod 10)])"
  by pat_completeness auto
termination
  by (relation "measure id") auto

declare string_of_nat.simps [simp del]

definition Sprintf_d :: "go_int \<Rightarrow> string" where
  "Sprintf_d n =
     (if sint n < 0 then CHR ''-'' # string_of_nat (nat (- sint n))
      else string_of_nat (nat (sint n)))"

text \<open>
  \<open>strconv.Atoi\<close>: an optional sign, then at least one decimal digit and nothing else.
  \<open>ParseUint_digits\<close> is the loop of \<open>strconv.ParseUint\<close> for base 10: it reads the
  bytes from the left, fails with \<open>ErrSyntax\<close> at the first byte that is no digit and
  with \<open>ErrRange\<close> as soon as the value no longer fits 64 unsigned bits. \<open>Atoi\<close> then
  applies the bounds of a signed 64-bit \<open>int\<close>, as \<open>ParseInt\<close> does. (The fast path of
  \<open>Atoi\<close> for strings shorter than 19 bytes gives the same results: no such string
  can overflow.) Every error carries the whole input string.
\<close>

definition is_digit :: "char \<Rightarrow> bool" where
  "is_digit c = (48 \<le> (of_char c :: nat) \<and> (of_char c :: nat) \<le> 57)"

fun ParseUint_digits :: "string \<Rightarrow> int \<Rightarrow> error + int" where
  "ParseUint_digits [] n = Inr n"
| "ParseUint_digits (c # cs) n =
     (if \<not> is_digit c then Inl ErrSyntax
      else if 2 ^ 64 \<le> 10 * n + (of_char c - 48) then Inl ErrRange
      else ParseUint_digits cs (10 * n + (of_char c - 48)))"

definition Atoi :: "string \<Rightarrow> error + go_int" where
  "Atoi s =
     (let neg = (s \<noteq> [] \<and> hd s = CHR ''-'');
          ds = (if s \<noteq> [] \<and> (hd s = CHR ''-'' \<or> hd s = CHR ''+'') then tl s else s)
      in if ds = [] then Inl (NumError ''Atoi'' s ErrSyntax)
         else case ParseUint_digits ds 0 of
                Inl err \<Rightarrow> Inl (NumError ''Atoi'' s err)
              | Inr un \<Rightarrow>
                  if \<not> neg \<and> 2 ^ 63 \<le> un then Inl (NumError ''Atoi'' s ErrRange)
                  else if neg \<and> 2 ^ 63 < un then Inl (NumError ''Atoi'' s ErrRange)
                  else Inr (word_of_int (if neg then - un else un)))"

subsection \<open>Floating point, as far as the page count uses it\<close>

text \<open>
  \<open>float64\<close> values are the rationals they denote. \<open>round64\<close> rounds a rational to
  the nearest number with a 53-bit significand, ties to even; overflow and subnormal
  numbers do not arise for the magnitudes of a 64-bit integer divided by 20.
  \<open>float64_of_int\<close> is the conversion \<open>float64(n)\<close>, \<open>float64_div\<close> the operator \<open>/\<close>,
  \<open>int_of_float64\<close> the conversion \<open>int(x)\<close> (truncation towards zero).
\<close>

definition pow2 :: "int \<Rightarrow> rat" where
  "pow2 e = (if 0 \<le> e then 2 ^ nat e else 1 / 2 ^ nat (- e))"

definition roundEven :: "rat \<Rightarrow> int" where
  "roundEven x =
     (let f = \<lfloor>x\<rfloor>; d = x - of_int f
      in if d < 1 / 2 then f else if 1 / 2 < d then f + 1 else if even f then f else f + 1)"

definition ulp_exp :: "rat \<Rightarrow> int" where
  "ulp_exp x =
     (if 1 \<le> \<bar>x\<bar> then bitlen \<lfloor>\<bar>x\<bar>\<rfloor> - 1 else - bitlen (\<lceil>1 / \<bar>x\<bar>\<rceil> - 1)) - 52"

definition round64 :: "rat \<Rightarrow> rat" where
  "round64 x =
     (if x = 0 then 0
      else let e = ulp_exp x in sgn x * of_int (roundEven (\<bar>x\<bar> / pow2 e)) * pow2 e)"

definition float64_of_int :: "go_int \<Rightarrow> rat" where
  "float64_of_int n = round64 (of_int (sint n))"

definition float64_div :: "rat \<Rightarrow> rat \<Rightarrow> rat" where
  "float64_div a b = round64 (a / b)"

definition math_Ceil :: "rat \<Rightarrow> rat" where
  "math_Ceil x = of_int \<lceil>x\<rceil>"

definition int_of_float64 :: "rat \<Rightarrow> go_int" where
  "int_of_float64 x = word_of_int (if 0 \<le> x then \<lfloor>x\<rfloor> else \<lceil>x\<rceil>)"

subsection \<open>The data model (main.go, lines 31-58)\<close>

record SearchResult =
  Ns :: go_int
  Title :: string
  PageID :: go_int
  Size :: go_int
  WordCount :: go_int
  Snippet :: string
  Timestamp :: string

record WikipediaSearchResponse =
  BatchComplete :: string
  ContinueSroffset :: go_int
  ContinueContinue :: string
  TotalHits :: go_int
  SearchResults :: "SearchResult list"

record Search =
  Query :: string
  TotalPages :: go_int
  NextPage :: go_int
  Results :: WikipediaSearchResponse

subsection \<open>The pagination accessors (main.go, lines 60-74)\<close>

definition IsLastPage :: "Search \<Rightarrow> bool" where
  "IsLastPage s = (TotalPages s \<le>s NextPage s)"

definition CurrentPage :: "Search \<Rightarrow> go_int" where
  "CurrentPage s = (if NextPage s = 1 then NextPage s else NextPage s - 1)"

definition PreviousPage :: "Search \<Rightarrow> go_int" where
  "PreviousPage s = CurrentPage s - 1"

subsection \<open>Requests, responses, logs\<close>

text \<open>
  A request carries its URL with the query already decoded (\<open>Values\<close> is what
  \<open>u.Query()\<close> returns, a map from a key to its values) and its context values.
  \<open>Values_Get\<close> is \<open>url.Values.Get\<close>: the first value of the key, or the empty string.
\<close>

record url =
  Path :: string
  RequestURI :: string
  Values :: "string \<rightharpoonup> string list"

record request =
  Method :: string
  URL :: url
  UserAgent :: string
  Context :: "string \<rightharpoonup> string"

definition Values_Get :: "(string \<rightharpoonup> string list) \<Rightarrow> string \<Rightarrow> string" where
  "Values_Get v key = (case v key of None \<Rightarrow> [] | Some [] \<Rightarrow> [] | Some (x # _) \<Rightarrow> x)"

text \<open>
  The reply of the upstream API as the client sees it: the status code, what
  \<open>io.ReadAll(resp.Body)\<close> gives, and what \<open>httputil.DumpResponse(resp, true)\<close> gives
  (its error is dropped by the program).
\<close>

record http_Response =
  StatusCode :: go_int
  Body :: "error + string"
  Dump :: string

record env =
  urlParse :: "url \<Rightarrow> error + url"
  httpGet :: "string \<Rightarrow> error + http_Response"
  jsonUnmarshal :: "string \<Rightarrow> error + WikipediaSearchResponse"
  tplExecute :: "Search option \<Rightarrow> string \<times> error option"
  xidNew :: string
  elapsed :: int

text \<open>
  \<open>tplExecute\<close> is \<open>tpl.Execute(buf, data)\<close>: the bytes it appended to the buffer and
  its error, if any; a failing execution may have produced output already.

  The server's \<open>http.ResponseWriter\<close>: the header map, the status once
  \<open>WriteHeader\<close> has run, the body bytes written so far, and \<open>writeErr\<close>, the error
  every \<open>Write\<close> returns once the connection is gone. \<open>WriteHeader\<close> after the first
  is ignored; \<open>Write\<close> sends status 200 first if none was sent. \<open>responseStatus\<close> is
  the status of the finished response: the server sends 200 when the handler never set
  one.
\<close>

record http_ResponseWriter =
  header :: "string \<rightharpoonup> string list"
  wroteHeader :: "go_int option"
  written :: string
  writeErr :: "error option"

definition Header_Add :: "(string \<rightharpoonup> string list) \<Rightarrow> string \<Rightarrow> string \<Rightarrow> (string \<rightharpoonup> string list)" where
  "Header_Add h k v = h(k \<mapsto> (case h k of None \<Rightarrow> [] | Some vs \<Rightarrow> vs) @ [v])"

definition Header_Set :: "(string \<rightharpoonup> string list) \<Rightarrow> string \<Rightarrow> string \<Rightarrow> (string \<rightharpoonup> string list)" where
  "Header_Set h k v = h(k \<mapsto> [v])"

definition WriteHeader :: "http_ResponseWriter \<Rightarrow> go_int \<Rightarrow> http_ResponseWriter" where
  "WriteHeader w code = (if wroteHeader w = None then w\<lparr>wroteHeader := Some code\<rparr> else w)"

definition Write :: "http_ResponseWriter \<Rightarrow> string \<Rightarrow> http_ResponseWriter \<times> error option" where
  "Write w b =
     (let w1 = (if wroteHeader w = None then WriteHeader w 200 else w)
      in case writeErr w1 of
           Some e \<Rightarrow> (w1, Some e)
         | None \<Rightarrow> (w1\<lparr>written := written w1 @ b\<rparr>, None))"

definition responseStatus :: "http_ResponseWriter \<Rightarrow> go_int" where
  "responseStatus w = (case wroteHeader w of None \<Rightarrow> 200 | Some code \<Rightarrow> code)"

text \<open>
  \<open>loggingResponseWriter\<close> (lines 87-103) embeds the writer and adds \<open>statusCode\<close>.
  It overrides \<open>WriteHeader\<close>; \<open>Header\<close> and \<open>Write\<close> are the embedded writer's.
\<close>

record loggingResponseWriter =
  ResponseWriter :: http_ResponseWriter
  statusCode :: go_int

definition newLoggingResponseWriter :: "http_ResponseWriter \<Rightarrow> loggingResponseWriter" where
  "newLoggingResponseWriter w = \<lparr>ResponseWriter = w, statusCode = 200\<rparr>"

definition lrw_WriteHeader :: "loggingResponseWriter \<Rightarrow> go_int \<Rightarrow> loggingResponseWriter" where
  "lrw_WriteHeader l code =
     (let l1 = l\<lparr>statusCode := code\<rparr>
      in l1\<lparr>ResponseWriter := WriteHeader (ResponseWriter l1) code\<rparr>)"

definition lrw_Write :: "loggingResponseWriter \<Rightarrow> string \<Rightarrow> loggingResponseWriter \<times> error option" where
  "lrw_Write l b = (case Write (ResponseWriter l) b of (w, err) \<Rightarrow> (l\<lparr>ResponseWriter := w\<rparr>, err))"

definition lrw_Header_Set :: "loggingResponseWriter \<Rightarrow> string \<Rightarrow> string \<Rightarrow> loggingResponseWriter" where
  "lrw_Header_Set l k v =
     l\<lparr>ResponseWriter := (ResponseWriter l)\<lparr>header := Header_Set (header (ResponseWriter l)) k v\<rparr>\<rparr>"

text \<open>
  \<open>http.Error\<close> (Go 1.19, the version of go.mod) sets two headers, calls
  \<open>WriteHeader(code)\<close> and prints the message with \<open>fmt.Fprintln\<close>: the message and a
  newline, whose write error is dropped. \<open>http.NotFound\<close> is
  \<open>Error(w, "404 page not found", 404)\<close>.
\<close>

definition http_Error :: "loggingResponseWriter \<Rightarrow> string \<Rightarrow> go_int \<Rightarrow> loggingResponseWriter" where
  "http_Error l msg code =
     (let l1 = lrw_Header_Set l ''Content-Type'' ''text/plain; charset=utf-8'';
          l2 = lrw_Header_Set l1 ''X-Content-Type-Options'' ''nosniff'';
          l3 = lrw_WriteHeader l2 code
      in fst (lrw_Write l3 (msg @ [CHR 0x0A])))"

definition http_NotFound :: "loggingResponseWriter \<Rightarrow> loggingResponseWriter" where
  "http_NotFound l = http_Error l ''404 page not found'' 404"

text \<open>\<open>bytes.Buffer.WriteTo\<close>: one \<open>Write\<close> of the whole content, none when it is empty.\<close>

definition Buffer_WriteTo :: "string \<Rightarrow> loggingResponseWriter \<Rightarrow> loggingResponseWriter \<times> error option" where
  "Buffer_WriteTo buf l = (if buf = [] then (l, None) else lrw_Write l buf)"

text \<open>
  Modelled from the spec: the package \<open>logger\<close> of this repository (\<open>logger.Get\<close>) is
  not among the sources. The specification describes a structured logger bound to the
  request, whose context handlers enrich and which records the events logged; the
  model keeps the events (level, fields given at the call, message) and the context
  fields added with \<open>UpdateContext\<close>. \<open>stdlog\<close> holds the lines of Go's standard
  logger (\<open>log.Println\<close>).
\<close>

datatype level = TraceLevel | DebugLevel | InfoLevel

datatype field =
    F_Str string string
  | F_Int string go_int
  | F_Dur string int
  | F_Interface string WikipediaSearchResponse

datatype log_event = Event level "field list" string

record logger =
  events :: "log_event list"
  logctx :: "field list"
  stdlog :: "string list"

record world =
  lrw :: loggingResponseWriter
  lg :: logger

definition UpdateContext :: "field list \<Rightarrow> logger \<Rightarrow> logger" where
  "UpdateContext fs l = l\<lparr>logctx := logctx l @ fs\<rparr>"

definition emit :: "log_event \<Rightarrow> logger \<Rightarrow> logger" where
  "emit e l = l\<lparr>events := events l @ [e]\<rparr>"

definition log_Println :: "string \<Rightarrow> logger \<Rightarrow> logger" where
  "log_Println line l = l\<lparr>stdlog := stdlog l @ [line]\<rparr>"

text \<open>A call returns with a value, or panics with a panic value; both leave a state.\<close>

datatype 'a outcome = Return 'a world | Panic string world

subsection \<open>The adapter (main.go, lines 76-85)\<close>

definition ServeHTTP ::
  "(request \<Rightarrow> world \<Rightarrow> error option outcome) \<Rightarrow> request \<Rightarrow> world \<Rightarrow> unit outcome" where
  "ServeHTTP fn r s =
     (case fn r s of
        Panic v s1 \<Rightarrow> Panic v s1
      | Return None s1 \<Rightarrow> Return () s1
      | Return (Some err) s1 \<Rightarrow>
          Return () (s1\<lparr>lg := log_Println (Error err) (lg s1),
                        lrw := http_Error (lrw s1) (Error err) 500\<rparr>))"

subsection \<open>The index handler (main.go, lines 105-120)\<close>

definition indexHandler :: "env \<Rightarrow> request \<Rightarrow> world \<Rightarrow> error option outcome" where
  "indexHandler env r s =
     (if Path (URL r) \<noteq> ''/'' then Return None (s\<lparr>lrw := http_NotFound (lrw s)\<rparr>)
      else case tplExecute env None of
             (buf, Some err) \<Rightarrow> Return (Some err) s
           | (buf, None) \<Rightarrow>
               (case Buffer_WriteTo buf (lrw s) of (l, err) \<Rightarrow> Return err (s\<lparr>lrw := l\<rparr>)))"

subsection \<open>The upstream client (main.go, lines 122-162)\<close>

text \<open>
  \<open>api_url\<close> is the \<open>fmt.Sprintf\<close> of lines 127-132: the verbs \<open>%d\<close>, \<open>%s\<close>, \<open>%d\<close>
  of the format string are replaced by the page size, the search string as it is, and
  the offset.
\<close>

definition api_endpoint :: string where
  "api_endpoint =
     ''https://en.wikipedia.org/w/api.php?action=query&list=search&prop=info&inprop=url&utf8=&format=json&origin=*''"

definition api_url :: "go_int \<Rightarrow> string \<Rightarrow> go_int \<Rightarrow> string" where
  "api_url pageSize searchQuery resultsOffset =
     api_endpoint @ ''&srlimit='' @ Sprintf_d pageSize @ ''&srsearch='' @ searchQuery
     @ ''&sroffset='' @ Sprintf_d resultsOffset"

definition searchWikipedia ::
  "env \<Rightarrow> string \<Rightarrow> go_int \<Rightarrow> go_int \<Rightarrow> error + WikipediaSearchResponse" where
  "searchWikipedia env searchQuery pageSize resultsOffset =
     (case httpGet env (api_url pageSize searchQuery resultsOffset) of
        Inl err \<Rightarrow> Inl err
      | Inr resp \<Rightarrow>
          if StatusCode resp \<noteq> 200
          then Inl (ErrorString (''non 200 OK response from Wikipedia API: '' @ Dump resp))
          else case Body resp of
                 Inl err \<Rightarrow> Inl err
               | Inr body \<Rightarrow> jsonUnmarshal env body)"

subsection \<open>The search handler (main.go, lines 164-229)\<close>

text \<open>
  \<open>searchModel\<close> is the handler up to the construction of the \<open>Search\<close> value (lines
  165-212): its result is the error it returns there, or the \<open>Search\<close> value.
  \<open>searchHandler\<close> is the whole handler: it renders that value and writes the page.
\<close>

definition searchModel :: "env \<Rightarrow> request \<Rightarrow> world \<Rightarrow> (error + Search) \<times> world" where
  "searchModel env r s =
     (case urlParse env (URL r) of
        Inl err \<Rightarrow> (Inl err, s)
      | Inr u \<Rightarrow>
          let params = Values u;
              searchQuery = Values_Get params ''q'';
              pageNum0 = Values_Get params ''page'';
              pageNum = (if pageNum0 = [] then ''1'' else pageNum0);
              l1 = UpdateContext [F_Str ''search_query'' searchQuery, F_Str ''page_num'' pageNum] (lg s);
              l2 = emit (Event InfoLevel []
                     (''incoming search query '' @ [CHR 0x27] @ searchQuery @ [CHR 0x27]
                      @ '' on page '' @ [CHR 0x27] @ pageNum @ [CHR 0x27])) l1;
              s2 = s\<lparr>lg := l2\<rparr>
          in case Atoi pageNum of
               Inl err \<Rightarrow> (Inl err, s2)
             | Inr nextPage \<Rightarrow>
                 let pageSize = 20;
                     resultsOffset = (nextPage - 1) * pageSize
                 in case searchWikipedia env searchQuery pageSize resultsOffset of
                      Inl err \<Rightarrow> (Inl err, s2)
                    | Inr searchResponse \<Rightarrow>
                        let l3 = emit (Event DebugLevel
                                   [F_Interface ''wikipedia_search_response'' searchResponse] []) l2;
                            totalHits = TotalHits searchResponse;
                            search = \<lparr>Query = searchQuery,
                                      TotalPages = int_of_float64 (math_Ceil
                                        (float64_div (float64_of_int totalHits) (float64_of_int pageSize))),
                                      NextPage = nextPage + 1,
                                      Results = searchResponse\<rparr>
                        in (Inr search, s\<lparr>lg := l3\<rparr>))"

definition searchHandler :: "env \<Rightarrow> request \<Rightarrow> world \<Rightarrow> error option outcome" where
  "searchHandler env r s =
     (case searchModel env r s of
        (Inl err, s1) \<Rightarrow> Return (Some err) s1
      | (Inr search, s1) \<Rightarrow>
          (case tplExecute env (Some search) of
             (buf, Some err) \<Rightarrow> Return (Some err) s1
           | (buf, None) \<Rightarrow>
               (case Buffer_WriteTo buf (lrw s1) of
                  (l, Some err) \<Rightarrow> Return (Some err) (s1\<lparr>lrw := l\<rparr>)
                | (l, None) \<Rightarrow>
                    Return None (s1\<lparr>lrw := l,
                      lg := emit (Event TraceLevel []
                              (''search query '' @ [CHR 0x27] @ Query search @ [CHR 0x27]
                               @ '' succeeded without errors'')) (lg s1)\<rparr>))))"

subsection \<open>The logging middleware (main.go, lines 231-279)\<close>

text \<open>
  The deferred function runs when \<open>next.ServeHTTP\<close> has returned or panicked. On a
  panic it sets \<open>statusCode\<close> and panics again with the same value, which ends it; the
  log call after the \<open>if\<close> is reached only without a panic.
\<close>

definition requestLogger ::
  "env \<Rightarrow> (request \<Rightarrow> world \<Rightarrow> unit outcome) \<Rightarrow> http_ResponseWriter \<Rightarrow> request \<Rightarrow> logger
     \<Rightarrow> unit outcome" where
  "requestLogger env next w r l =
     (let correlationID = xidNew env;
          r1 = r\<lparr>Context := (Context r)(''correlation_id'' \<mapsto> correlationID)\<rparr>;
          l1 = UpdateContext [F_Str ''correlation_id'' correlationID] l;
          w1 = w\<lparr>header := Header_Add (header w) ''X-Correlation-Id'' correlationID\<rparr>;
          lrw0 = newLoggingResponseWriter w1
      in case next r1 \<lparr>lrw = lrw0, lg = l1\<rparr> of
           Panic panicVal s \<Rightarrow> Panic panicVal (s\<lparr>lrw := (lrw s)\<lparr>statusCode := 500\<rparr>\<rparr>)
         | Return u s \<Rightarrow>
             Return () (s\<lparr>lg := emit (Event InfoLevel
                 [F_Str ''method'' (Method r1),
                  F_Str ''url'' (RequestURI (URL r1)),
                  F_Str ''user_agent'' (UserAgent r1),
                  F_Dur ''elapsed_ms'' (elapsed env),
                  F_Int ''status_code'' (statusCode (lrw s))]
                 ''incoming request'') (lg s)\<rparr>))"


subsection \<open>URL encoding, as the specification words it\<close>

text \<open>
  The specification says that the three parameters are URL-encoded. \<open>QueryEscape\<close> is
  the percent-encoding of a query component (Go's \<open>url.QueryEscape\<close>): letters, digits
  and \<open>- _ . ~\<close> stay, a space becomes \<open>+\<close>, every other byte becomes \<open>%XX\<close>.
  \<open>encoded_api_url\<close> is the URL the specification describes; \<open>api_url\<close> above is the
  one the program builds.
\<close>

definition unreserved :: "char \<Rightarrow> bool" where
  "unreserved c =
     (let n = (of_char c :: nat)
      in (48 \<le> n \<and> n \<le> 57) \<or> (65 \<le> n \<and> n \<le> 90) \<or> (97 \<le> n \<and> n \<le> 122)
         \<or> n = 45 \<or> n = 95 \<or> n = 46 \<or> n = 126)"

definition hex_upper :: "nat \<Rightarrow> char" where
  "hex_upper d = ''0123456789ABCDEF'' ! (d mod 16)"

definition escape_byte :: "char \<Rightarrow> string" where
  "escape_byte c =
     (if unreserved c then [c]
      else if c = CHR '' '' then ''+''
      else [CHR ''%'', hex_upper (of_char c div 16), hex_upper (of_char c)])"

definition QueryEscape :: "string \<Rightarrow> string" where
  "QueryEscape s = concat (map escape_byte s)"

definition encoded_api_url :: "go_int \<Rightarrow> string \<Rightarrow> go_int \<Rightarrow> string" where
  "encoded_api_url pageSize searchQuery resultsOffset =
     api_endpoint @ ''&srlimit='' @ QueryEscape (Sprintf_d pageSize)
     @ ''&srsearch='' @ QueryEscape searchQuery
     @ ''&sroffset='' @ QueryEscape (Sprintf_d resultsOffset)"

subsection \<open>Stub environments and requests\<close>

text \<open>
  A stub upstream that answers 200 with a given \<open>totalhits\<close>, a template that renders
  a fixed page, and the variations used below: an upstream that fails with the
  requested URL as its message (so that the URL can be observed), an upstream that
  answers 503, a template that fails after it has produced some output, a handler that
  returns an error, and a response whose connection is gone.
\<close>

definition stub_response :: "go_int \<Rightarrow> WikipediaSearchResponse" where
  "stub_response totalhits =
     \<lparr>BatchComplete = [], ContinueSroffset = 0, ContinueContinue = [],
      TotalHits = totalhits, SearchResults = []\<rparr>"

definition stub_env :: "go_int \<Rightarrow> env" where
  "stub_env totalhits =
     \<lparr>urlParse = Inr,
      httpGet = (\<lambda>u. Inr \<lparr>StatusCode = 200, Body = Inr ''{}'', Dump = []\<rparr>),
      jsonUnmarshal = (\<lambda>b. Inr (stub_response totalhits)),
      tplExecute = (\<lambda>d. (''<html></html>'', None)),
      xidNew = ''c0'',
      elapsed = 0\<rparr>"

definition echo_env :: env where
  "echo_env = (stub_env 0)\<lparr>httpGet := (\<lambda>u. Inl (ErrorString u))\<rparr>"

definition unavailable_env :: env where
  "unavailable_env =
     (stub_env 0)\<lparr>httpGet := (\<lambda>u. Inr \<lparr>StatusCode = 503, Body = Inr [],
                                        Dump = ''HTTP/1.1 503 Service Unavailable''\<rparr>)\<rparr>"

definition broken_template_env :: env where
  "broken_template_env =
     (stub_env 50)\<lparr>tplExecute := (\<lambda>d. (''<html>'', Some (ErrorString ''template: boom'')))\<rparr>"

definition search_request :: "string \<Rightarrow> string \<Rightarrow> request" where
  "search_request q page =
     \<lparr>Method = ''GET'',
      URL = \<lparr>Path = ''/search'', RequestURI = ''/search?q='' @ q @ ''&page='' @ page,
             Values = [''q'' \<mapsto> [q], ''page'' \<mapsto> [page]]\<rparr>,
      UserAgent = ''curl'',
      Context = Map.empty\<rparr>"

definition path_request :: "string \<Rightarrow> request" where
  "path_request p =
     \<lparr>Method = ''GET'',
      URL = \<lparr>Path = p, RequestURI = p, Values = Map.empty\<rparr>,
      UserAgent = ''curl'',
      Context = Map.empty\<rparr>"

definition fresh_writer :: http_ResponseWriter where
  "fresh_writer = \<lparr>header = Map.empty, wroteHeader = None, written = [], writeErr = None\<rparr>"

definition fresh_logger :: logger where
  "fresh_logger = \<lparr>events = [], logctx = [], stdlog = []\<rparr>"

definition fresh_world :: world where
  "fresh_world = \<lparr>lrw = newLoggingResponseWriter fresh_writer, lg = fresh_logger\<rparr>"

definition broken_pipe_world :: world where
  "broken_pipe_world =
     \<lparr>lrw = newLoggingResponseWriter
              (fresh_writer\<lparr>writeErr := Some (ErrorString ''write: broken pipe'')\<rparr>),
      lg = fresh_logger\<rparr>"

definition failing_handler :: "request \<Rightarrow> world \<Rightarrow> error option outcome" where
  "failing_handler r s = Return (Some (ErrorString ''boom'')) s"

section \<open>Properties\<close>

subsection \<open>The pagination accessors\<close>

text \<open>
  C4. For every Search value, \<open>IsLastPage()\<close> is true if and only if
  \<open>NextPage >= TotalPages\<close>, the comparison being Go's signed comparison of the two
  \<open>int\<close> fields.
\<close>

theorem IsLastPage_iff:
  "IsLastPage s \<longleftrightarrow> sint (NextPage s) \<ge> sint (TotalPages s)"
  by (simp add: IsLastPage_def word_sle_eq)

text \<open>
  C7. For every Search value, \<open>CurrentPage()\<close> returns \<open>NextPage\<close> when \<open>NextPage\<close>
  equals 1 and \<open>NextPage - 1\<close> otherwise (Go's subtraction on \<open>int\<close>), and
  \<open>PreviousPage()\<close> returns \<open>CurrentPage() - 1\<close>. With \<open>NextPage = 1\<close> the two are 1
  and 0, with \<open>NextPage = 5\<close> they are 4 and 3.
\<close>

theorem CurrentPage_PreviousPage:
  "CurrentPage s = (if NextPage s = 1 then NextPage s else NextPage s - 1)
   \<and> PreviousPage s = CurrentPage s - 1
   \<and> CurrentPage (s\<lparr>NextPage := 1\<rparr>) = 1 \<and> PreviousPage (s\<lparr>NextPage := 1\<rparr>) = 0
   \<and> CurrentPage (s\<lparr>NextPage := 5\<rparr>) = 4 \<and> PreviousPage (s\<lparr>NextPage := 5\<rparr>) = 3"
  by (simp add: CurrentPage_def PreviousPage_def)

subsection \<open>The request URL\<close>

lemma digit_char_unreserved: "unreserved (digit_char d)"
proof -
  have "d mod 10 \<in> {0, 1, 2, 3, 4, 5, 6, 7, 8, 9}"
    by (simp add: insert_commute) arith
  then show ?thesis
    by (auto simp: digit_char_def unreserved_def)
qed

lemma string_of_nat_unreserved: "list_all unreserved (string_of_nat n)"
proof (induction n rule: string_of_nat.induct)
  case (1 n)
  show ?case
  proof (cases "n < 10")
    case True
    then show ?thesis
      by (subst string_of_nat.simps) (simp add: digit_char_unreserved)
  next
    case False
    with "1" show ?thesis
      by (subst string_of_nat.simps) (simp add: digit_char_unreserved)
  qed
qed

lemma Sprintf_d_unreserved: "list_all unreserved (Sprintf_d n)"
  by (simp add: Sprintf_d_def string_of_nat_unreserved unreserved_def)

lemma length_QueryEscape: "length s \<le> length (QueryEscape s)"
  by (induction s) (simp_all add: QueryEscape_def escape_byte_def)

lemma QueryEscape_Cons: "QueryEscape (c # s) = escape_byte c @ QueryEscape s"
  by (simp add: QueryEscape_def)

lemma QueryEscape_unreserved: "list_all unreserved s \<Longrightarrow> QueryEscape s = s"
  by (induction s) (simp_all add: QueryEscape_def escape_byte_def)

lemma QueryEscape_fixed: "QueryEscape s = s \<Longrightarrow> list_all unreserved s"
proof (induction s)
  case Nil
  show ?case by simp
next
  case (Cons c s)
  show ?case
  proof (cases "unreserved c")
    case True
    with Cons show ?thesis
      by (simp add: QueryEscape_Cons escape_byte_def)
  next
    case False
    have len: "length s \<le> length (QueryEscape s)"
      by (rule length_QueryEscape)
    show ?thesis
    proof (cases "c = CHR '' ''")
      case True
      with False Cons.prems show ?thesis
        by (simp add: QueryEscape_Cons escape_byte_def)
    next
      case space: False
      from False space
      have "length (QueryEscape (c # s)) = 3 + length (QueryEscape s)"
        by (simp add: QueryEscape_Cons escape_byte_def)
      moreover from Cons.prems have "length (QueryEscape (c # s)) = length (c # s)"
        by (rule arg_cong)
      ultimately show ?thesis
        using len by simp
    qed
  qed
qed

lemma QueryEscape_eq_iff: "s = QueryEscape s \<longleftrightarrow> list_all unreserved s"
  using QueryEscape_fixed [of s] QueryEscape_unreserved [of s] by auto

text \<open>
  C2, as the claim states it, fails: for the search string \<open>R&B\<close> the client requests
  a URL that holds the string as it is, where the URL-encoded one holds \<open>R%26B\<close>.
\<close>

theorem api_url_not_encoded:
  "api_url 20 ''R&B'' 0 = api_endpoint @ ''&srlimit=20&srsearch=R&B&sroffset=0''
   \<and> encoded_api_url 20 ''R&B'' 0 = api_endpoint @ ''&srlimit=20&srsearch=R%26B&sroffset=0''
   \<and> api_url 20 ''R&B'' 0 \<noteq> encoded_api_url 20 ''R&B'' 0"
  by (simp add: api_url_def encoded_api_url_def Sprintf_d_def string_of_nat.simps
      digit_char_def QueryEscape_def escape_byte_def unreserved_def hex_upper_def)

text \<open>
  C2, amended. For every search string, page size and offset, the upstream client
  requests the URL in which the page size and the offset stand as decimal integers
  (which need no encoding) and the search string stands as it is, without
  percent-encoding; this URL is the URL-encoded one exactly when every byte of the
  search string is a letter, a digit or one of \<open>- _ . ~\<close>.
\<close>

theorem api_url_encoded_iff:
  "searchWikipedia env searchQuery pageSize resultsOffset =
     (case httpGet env (api_endpoint @ ''&srlimit='' @ Sprintf_d pageSize @ ''&srsearch=''
                        @ searchQuery @ ''&sroffset='' @ Sprintf_d resultsOffset) of
        Inl err \<Rightarrow> Inl err
      | Inr resp \<Rightarrow>
          (if StatusCode resp \<noteq> 200
           then Inl (ErrorString (''non 200 OK response from Wikipedia API: '' @ Dump resp))
           else (case Body resp of Inl err \<Rightarrow> Inl err | Inr body \<Rightarrow> jsonUnmarshal env body)))
   \<and> (api_url pageSize searchQuery resultsOffset
        = encoded_api_url pageSize searchQuery resultsOffset
      \<longleftrightarrow> list_all unreserved searchQuery)"
  by (simp add: searchWikipedia_def api_url_def encoded_api_url_def
      QueryEscape_unreserved [OF Sprintf_d_unreserved] QueryEscape_eq_iff)

subsection \<open>The page count\<close>

lemma pow2_pos: "0 < pow2 e"
  by (simp add: pow2_def)

lemma pow2_nonpos: "e \<le> 0 \<Longrightarrow> pow2 e = 1 / 2 ^ nat (- e)"
  by (auto simp: pow2_def)

lemma roundEven_of_int: "roundEven (of_int k) = k"
  by (simp add: roundEven_def)

lemma roundEven_error: "\<bar>of_int (roundEven y) - y\<bar> \<le> 1 / 2"
proof -
  have "of_int \<lfloor>y\<rfloor> \<le> y" "y < of_int \<lfloor>y\<rfloor> + 1"
    by linarith+
  then show ?thesis
    by (auto simp: roundEven_def Let_def)
qed

lemma ulp_exp_small:
  assumes "\<bar>x\<bar> < 2 ^ n" and "0 < n"
  shows "ulp_exp x \<le> int n - 53"
proof (cases "1 \<le> \<bar>x\<bar>")
  case True
  have "\<lfloor>\<bar>x\<bar>\<rfloor> < 2 ^ n"
    using assms by (simp add: floor_less_iff)
  then have "bitlen \<lfloor>\<bar>x\<bar>\<rfloor> \<le> int n"
    by (simp add: bitlen_le_iff_power)
  with True show ?thesis
    by (simp add: ulp_exp_def)
next
  case False
  have "0 \<le> bitlen (\<lceil>1 / \<bar>x\<bar>\<rceil> - 1)"
    by (rule bitlen_nonneg)
  with False \<open>0 < n\<close> show ?thesis
    by (simp add: ulp_exp_def)
qed

text \<open>An integer below \<open>2 ^ 53\<close> in magnitude is a \<open>float64\<close>: converting it is exact.\<close>

lemma round64_of_int:
  assumes "\<bar>n\<bar> < 2 ^ 53"
  shows "round64 (of_int n) = of_int n"
proof (cases "n = 0")
  case True
  then show ?thesis by (simp add: round64_def)
next
  case False
  define e where "e = ulp_exp (of_int n)"
  have "\<bar>of_int n :: rat\<bar> < 2 ^ 53"
    using assms by (metis of_int_abs of_int_less_numeral_power_cancel_iff)
  then have e: "e \<le> 0"
    using ulp_exp_small [of "of_int n" 53] by (simp add: e_def)
  have "\<bar>of_int n :: rat\<bar> / pow2 e = of_int (\<bar>n\<bar> * 2 ^ nat (- e))"
    using e by (simp add: pow2_nonpos)
  then have "roundEven (\<bar>of_int n :: rat\<bar> / pow2 e) = \<bar>n\<bar> * 2 ^ nat (- e)"
    by (simp only: roundEven_of_int)
  then have "of_int (roundEven (\<bar>of_int n :: rat\<bar> / pow2 e)) * pow2 e = (of_int \<bar>n\<bar> :: rat)"
    using e by (simp add: pow2_nonpos)
  then have "round64 (of_int n) = sgn (of_int n) * (of_int \<bar>n\<bar> :: rat)"
    using False by (simp add: round64_def e_def Let_def mult.assoc)
  also have "\<dots> = of_int n"
    by (simp add: sgn_if)
  finally show ?thesis .
qed

text \<open>Below \<open>2 ^ 49\<close> in magnitude, rounding moves a number by at most \<open>1 / 32\<close>.\<close>

lemma round64_error:
  assumes "\<bar>x\<bar> < 2 ^ 49"
  shows "\<bar>round64 x - x\<bar> \<le> 1 / 32"
proof (cases "x = 0")
  case True
  then show ?thesis by (simp add: round64_def)
next
  case False
  define e where "e = ulp_exp x"
  define m where "m = roundEven (\<bar>x\<bar> / pow2 e)"
  have e: "e \<le> - 4"
    using ulp_exp_small [OF assms] by (simp add: e_def)
  have p: "0 < pow2 e" by (rule pow2_pos)
  have pe: "pow2 e = 1 / 2 ^ nat (- e)"
    using e by (simp add: pow2_nonpos)
  have "(2::rat) ^ 4 \<le> 2 ^ nat (- e)"
    using e by (intro power_increasing) auto
  then have "1 / (2::rat) ^ nat (- e) \<le> 1 / 2 ^ 4"
    by (intro divide_left_mono) auto
  with pe have small: "pow2 e \<le> 1 / 16"
    by simp
  have "\<bar>of_int m - \<bar>x\<bar> / pow2 e\<bar> \<le> 1 / 2"
    unfolding m_def by (rule roundEven_error)
  then have "\<bar>of_int m - \<bar>x\<bar> / pow2 e\<bar> * pow2 e \<le> 1 / 2 * pow2 e"
    using p by (intro mult_right_mono) auto
  moreover have "\<bar>of_int m - \<bar>x\<bar> / pow2 e\<bar> * pow2 e = \<bar>of_int m * pow2 e - \<bar>x\<bar>\<bar>"
  proof -
    have "(of_int m - \<bar>x\<bar> / pow2 e) * pow2 e = of_int m * pow2 e - \<bar>x\<bar>"
      using p by (simp add: field_simps)
    then have "\<bar>of_int m * pow2 e - \<bar>x\<bar>\<bar> = \<bar>of_int m - \<bar>x\<bar> / pow2 e\<bar> * \<bar>pow2 e\<bar>"
      by (simp only: abs_mult [symmetric])
    then show ?thesis
      using p by simp
  qed
  ultimately have err: "\<bar>of_int m * pow2 e - \<bar>x\<bar>\<bar> \<le> 1 / 32"
    using small by linarith
  have "round64 x - x = sgn x * (of_int m * pow2 e - \<bar>x\<bar>)"
    using False by (simp add: round64_def e_def m_def Let_def algebra_simps sgn_if)
  then have "\<bar>round64 x - x\<bar> = \<bar>of_int m * pow2 e - \<bar>x\<bar>\<bar>"
    using False by (simp add: abs_mult sgn_if)
  with err show ?thesis by simp
qed

text \<open>
  A quotient \<open>n / 20\<close> that is not an integer lies at least \<open>1 / 20\<close> away from the
  integers around it, so that rounding it does not change its ceiling.
\<close>

lemma ceiling_round64_div20:
  assumes "\<bar>n\<bar> < 2 ^ 53"
  shows "\<lceil>round64 (of_int n / 20)\<rceil> = \<lceil>(of_int n :: rat) / 20\<rceil>"
proof -
  define k where "k = n div 20"
  define r where "r = n mod 20"
  have n: "n = 20 * k + r" and r: "0 \<le> r" "r < 20"
    by (simp_all add: k_def r_def)
  define x :: rat where "x = of_int n / 20"
  have x: "x = of_int k + of_int r / 20"
    by (simp add: x_def n)
  show ?thesis
  proof (cases "r = 0")
    case True
    have "\<bar>k\<bar> < 2 ^ 53"
      using assms n True by simp
    then have "round64 (of_int k) = of_int k"
      by (rule round64_of_int)
    moreover have "(of_int n :: rat) / 20 = of_int k"
      using x True by (simp add: x_def)
    ultimately show ?thesis by simp
  next
    case False
    with r have r': "1 \<le> r" "r \<le> 19" by simp_all
    then have lo: "of_int k + 1 / 20 \<le> x" and hi: "x \<le> of_int k + 19 / 20"
      by (simp_all add: x)
    have "\<bar>of_int n :: rat\<bar> < 2 ^ 53"
      using assms by (metis of_int_abs of_int_less_numeral_power_cancel_iff)
    then have "\<bar>x\<bar> < 2 ^ 49"
      by (simp add: x_def)
    then have "\<bar>round64 x - x\<bar> \<le> 1 / 32"
      by (rule round64_error)
    then have "x - 1 / 32 \<le> round64 x" "round64 x \<le> x + 1 / 32"
      by linarith+
    with lo hi have "of_int k < round64 x" "round64 x \<le> of_int k + 1"
      by linarith+
    then have "of_int (k + 1) - 1 < round64 x" "round64 x \<le> of_int (k + 1)"
      by simp_all
    then have "\<lceil>round64 x\<rceil> = k + 1"
      by (rule ceiling_unique)
    moreover from lo hi have "of_int (k + 1) - 1 < x" "x \<le> of_int (k + 1)"
      by simp_all
    then have "\<lceil>x\<rceil> = k + 1"
      by (rule ceiling_unique)
    ultimately show ?thesis by (simp add: x_def)
  qed
qed

lemma sint_word_of_int_64:
  "- (2 ^ 63) \<le> k \<Longrightarrow> k < 2 ^ 63 \<Longrightarrow> sint (word_of_int k :: 64 word) = k"
  by (simp add: sint_sbintrunc' signed_take_bit_int_eq_self)

lemma page_count_exact:
  assumes "\<bar>sint h\<bar> < 2 ^ 53"
  shows "int_of_float64 (math_Ceil (float64_div (float64_of_int h) (float64_of_int 20)))
         = word_of_int \<lceil>rat_of_int (sint h) / 20\<rceil>"
proof -
  have "round64 (rat_of_int (sint h)) = rat_of_int (sint h)"
    using assms by (rule round64_of_int)
  moreover have "round64 20 = 20"
    using round64_of_int [of 20] by simp
  ultimately show ?thesis
    using ceiling_round64_div20 [OF assms]
    by (simp add: float64_div_def math_Ceil_def int_of_float64_def float64_of_int_def
      del: of_int_sint)
qed

lemma page_count_boundary:
  "sint (int_of_float64 (math_Ceil
     (float64_div (float64_of_int 9007199254740992) (float64_of_int 20))))
   = \<lceil>rat_of_int (sint (9007199254740992 :: go_int)) / 20\<rceil>"
  "sint (int_of_float64 (math_Ceil
     (float64_div (float64_of_int (- 9007199254740992)) (float64_of_int 20))))
   = \<lceil>rat_of_int (sint (- 9007199254740992 :: go_int)) / 20\<rceil>"
  by code_simp+

lemma page_count_sint:
  assumes "\<bar>sint h\<bar> \<le> 2 ^ 53"
  shows "sint (int_of_float64 (math_Ceil (float64_div (float64_of_int h) (float64_of_int 20))))
         = \<lceil>rat_of_int (sint h) / 20\<rceil>"
proof (cases "\<bar>sint h\<bar> < 2 ^ 53")
  case True
  define n where "n = sint h"
  have "- (2 ^ 53) < n" "n < 2 ^ 53"
    using True by (simp_all add: abs_less_iff n_def)
  then have "rat_of_int (- (2 ^ 53)) < rat_of_int n" "rat_of_int n < rat_of_int (2 ^ 53)"
    by (simp_all only: of_int_less_iff)
  then have "rat_of_int (- (2 ^ 53)) \<le> rat_of_int n / 20" "rat_of_int n / 20 \<le> rat_of_int (2 ^ 53)"
    by simp_all
  then have "- (2 ^ 53) \<le> \<lceil>rat_of_int n / 20\<rceil>" "\<lceil>rat_of_int n / 20\<rceil> \<le> 2 ^ 53"
    by (simp_all only: ceiling_le_iff le_ceiling_iff)
  then have "sint (word_of_int \<lceil>rat_of_int n / 20\<rceil> :: 64 word) = \<lceil>rat_of_int n / 20\<rceil>"
    by (intro sint_word_of_int_64) simp_all
  then show ?thesis
    by (simp only: page_count_exact [OF True] n_def)
next
  case False
  with assms consider "sint h = 2 ^ 53" | "sint h = - (2 ^ 53)"
    by (auto simp: abs_if split: if_splits)
  then show ?thesis
  proof cases
    case 1
    then have "word_of_int (sint h) = (word_of_int (2 ^ 53) :: 64 word)"
      by (simp only:)
    then have "h = 9007199254740992"
      by simp
    then show ?thesis
      by (simp only: page_count_boundary)
  next
    case 2
    then have "word_of_int (sint h) = (word_of_int (- (2 ^ 53)) :: 64 word)"
      by (simp only:)
    then have "h = - 9007199254740992"
      by simp
    then show ?thesis
      by (simp only: page_count_boundary)
  qed
qed

lemma searchModel_TotalPages:
  assumes "fst (searchModel env r s) = Inr m"
  shows "TotalPages m = int_of_float64 (math_Ceil
           (float64_div (float64_of_int (TotalHits (Results m))) (float64_of_int 20)))"
  using assms
  by (auto simp: searchModel_def Let_def split: sum.splits)

lemmas search_eval =
  searchModel_def searchWikipedia_def stub_env_def stub_response_def search_request_def
  fresh_world_def fresh_writer_def fresh_logger_def newLoggingResponseWriter_def
  Values_Get_def Atoi_def is_digit_def Let_def emit_def UpdateContext_def

lemma page_count_large:
  "int_of_float64 (math_Ceil (float64_div (float64_of_int 9007199254741001) (float64_of_int 20)))
     = 450359962737050"
  by code_simp

text \<open>
  C5, as the claim states it, fails: an upstream response with
  \<open>totalhits = 9007199254741001\<close> (which is \<open>2 ^ 53 + 9\<close>) gives
  \<open>TotalPages = 450359962737050\<close>, and the ceiling of \<open>9007199254741001 / 20\<close> is
  \<open>450359962737051\<close>: the conversion to \<open>float64\<close> rounds the hit count to
  \<open>9007199254741000\<close>.
\<close>

theorem TotalPages_large_hits:
  "(case fst (searchModel (stub_env 9007199254741001) (search_request ''cat'' ''1'') fresh_world) of
      Inl err \<Rightarrow> False
    | Inr m \<Rightarrow> TotalHits (Results m) = 9007199254741001 \<and> TotalPages m = 450359962737050)
   \<and> \<lceil>rat_of_int 9007199254741001 / 20\<rceil> = 450359962737051"
proof (intro conjI)
  show "case fst (searchModel (stub_env 9007199254741001) (search_request ''cat'' ''1'') fresh_world) of
      Inl err \<Rightarrow> False
    | Inr m \<Rightarrow> TotalHits (Results m) = 9007199254741001 \<and> TotalPages m = 450359962737050"
    by (simp add: search_eval page_count_large)
  show "\<lceil>rat_of_int 9007199254741001 / 20\<rceil> = 450359962737051"
    by (rule ceiling_unique) simp_all
qed

text \<open>
  C5, amended. For every upstream response whose \<open>totalHits\<close> is at most \<open>2 ^ 53\<close> in
  magnitude, the \<open>TotalPages\<close> field of the Search model built by the search handler
  equals the integer ceiling of \<open>totalHits\<close> divided by the page size 20; in
  particular \<open>totalHits = 45\<close> gives \<open>TotalPages = 3\<close>.
\<close>

theorem TotalPages_ceiling:
  assumes "fst (searchModel env r s) = Inr m"
    and "\<bar>sint (TotalHits (Results m))\<bar> \<le> 2 ^ 53"
  shows "sint (TotalPages m) = \<lceil>rat_of_int (sint (TotalHits (Results m))) / 20\<rceil>"
  using assms by (simp only: searchModel_TotalPages page_count_sint)

theorem TotalPages_ceiling_witness:
  "fst (searchModel (stub_env 45) (search_request ''cat'' ''1'') fresh_world)
     = Inr \<lparr>Query = ''cat'', TotalPages = 3, NextPage = 2, Results = stub_response 45\<rparr>
   \<and> \<bar>sint (45 :: go_int)\<bar> \<le> 2 ^ 53
   \<and> sint (3 :: go_int) = \<lceil>rat_of_int 45 / 20\<rceil>"
proof -
  have c: "\<lceil>(9 :: rat) / 4\<rceil> = 3"
    by (rule ceiling_unique) simp_all
  have m: "fst (searchModel (stub_env 45) (search_request ''cat'' ''1'') fresh_world)
     = Inr \<lparr>Query = ''cat'', TotalPages = 3, NextPage = 2, Results = stub_response 45\<rparr>"
    by (simp add: search_eval page_count_exact c)
  have h: "\<bar>sint (TotalHits (Results \<lparr>Query = ''cat'', TotalPages = 3, NextPage = 2,
             Results = stub_response 45\<rparr>))\<bar> \<le> 2 ^ 53"
    by (simp add: stub_response_def)
  have "sint (3 :: go_int) = \<lceil>rat_of_int (sint (45 :: go_int)) / 20\<rceil>"
    using TotalPages_ceiling [OF m h] by (simp add: stub_response_def del: of_int_sint)
  then show ?thesis
    using m by simp
qed

subsection \<open>The result offset\<close>

lemmas url_eval =
  api_url_def Sprintf_d_def string_of_nat.simps digit_char_def echo_env_def

lemma sint_offset:
  assumes "- 461168601842738789 \<le> sint p" and "sint p \<le> 461168601842738791"
  shows "sint ((p - 1) * 20 :: go_int) = (sint p - 1) * 20"
proof -
  have e: "(p - 1) * 20 = word_of_int ((sint p - 1) * 20)"
    by simp
  have "sint (word_of_int ((sint p - 1) * 20) :: 64 word) = (sint p - 1) * 20"
    using assms by (intro sint_word_of_int_64) simp_all
  then show ?thesis
    by (simp only: e)
qed

text \<open>
  C6, as the claim states it, fails at both ends of the range of \<open>strconv.Atoi\<close>. For
  \<open>page=9223372036854775807\<close> (a page number \<open>p \<ge> 1\<close>) the offset in the requested URL
  is \<open>-40\<close>, where \<open>(p - 1) * 20\<close> is \<open>184467440737095516120\<close>; for
  \<open>page=-461168601842738790\<close> (a page number \<open>p \<le> 0\<close>) the offset is the positive
  number \<open>9223372036854775796\<close>. The upstream stub fails with the requested URL as its
  message, which the handler returns.
\<close>

theorem offset_wraps_around:
  "fst (searchModel echo_env (search_request ''cat'' ''9223372036854775807'') fresh_world)
     = Inl (ErrorString (api_endpoint @ ''&srlimit=20&srsearch=cat&sroffset=-40''))
   \<and> fst (searchModel echo_env (search_request ''cat'' ''-461168601842738790'') fresh_world)
     = Inl (ErrorString (api_endpoint
         @ ''&srlimit=20&srsearch=cat&sroffset=9223372036854775796''))
   \<and> ((9223372036854775807 :: int) - 1) * 20 = 184467440737095516120
   \<and> ((- 461168601842738790 :: int) - 1) * 20 = - 9223372036854775820"
  by (simp add: search_eval url_eval)

text \<open>
  C6, amended. For every page number \<open>p\<close> parsed from the page query parameter (which
  defaults to "1"), the offset passed to the upstream client is \<open>(p - 1) * 20\<close>
  computed in 64-bit wrap-around arithmetic, and it is passed without validation. It
  is the integer \<open>(p - 1) * 20\<close> of the pagination formula whenever
  \<open>-461168601842738789 \<le> p \<le> 461168601842738791\<close>: non-negative for \<open>p \<ge> 1\<close> and
  negative for \<open>p \<le> 0\<close> in that range.
\<close>

theorem offset_passed:
  assumes "urlParse env (URL r) = Inr u"
    and "Atoi (if Values_Get (Values u) ''page'' = [] then ''1''
               else Values_Get (Values u) ''page'') = Inr p"
  shows "fst (searchModel env r s)
           = (case searchWikipedia env (Values_Get (Values u) ''q'') 20 ((p - 1) * 20) of
                Inl err \<Rightarrow> Inl err
              | Inr searchResponse \<Rightarrow>
                  Inr \<lparr>Query = Values_Get (Values u) ''q'',
                       TotalPages = int_of_float64 (math_Ceil (float64_div
                         (float64_of_int (TotalHits searchResponse)) (float64_of_int 20))),
                       NextPage = p + 1,
                       Results = searchResponse\<rparr>)
         \<and> (- 461168601842738789 \<le> sint p \<and> sint p \<le> 461168601842738791
              \<longrightarrow> sint ((p - 1) * 20) = (sint p - 1) * 20
                  \<and> (1 \<le> sint p \<longrightarrow> 0 \<le> sint ((p - 1) * 20))
                  \<and> (sint p \<le> 0 \<longrightarrow> sint ((p - 1) * 20) < 0))"
proof (intro conjI impI)
  show "fst (searchModel env r s)
           = (case searchWikipedia env (Values_Get (Values u) ''q'') 20 ((p - 1) * 20) of
                Inl err \<Rightarrow> Inl err
              | Inr searchResponse \<Rightarrow>
                  Inr \<lparr>Query = Values_Get (Values u) ''q'',
                       TotalPages = int_of_float64 (math_Ceil (float64_div
                         (float64_of_int (TotalHits searchResponse)) (float64_of_int 20))),
                       NextPage = p + 1,
                       Results = searchResponse\<rparr>)"
    using assms by (simp add: searchModel_def Let_def split: sum.splits)
next
  assume "- 461168601842738789 \<le> sint p \<and> sint p \<le> 461168601842738791"
  then have eq: "sint ((p - 1) * 20) = (sint p - 1) * 20"
    by (intro sint_offset) simp_all
  show "sint ((p - 1) * 20) = (sint p - 1) * 20"
    by (rule eq)
  show "0 \<le> sint ((p - 1) * 20)" if "1 \<le> sint p"
    using that unfolding eq by simp
  show "sint ((p - 1) * 20) < 0" if "sint p \<le> 0"
    using that unfolding eq by simp
qed

theorem offset_passed_witness:
  "urlParse echo_env (URL (search_request ''cat'' ''3'')) = Inr (URL (search_request ''cat'' ''3''))
   \<and> Atoi ''3'' = Inr 3
   \<and> fst (searchModel echo_env (search_request ''cat'' ''3'') fresh_world)
       = Inl (ErrorString (api_endpoint @ ''&srlimit=20&srsearch=cat&sroffset=40''))
   \<and> - 461168601842738789 \<le> sint (3 :: go_int) \<and> sint (3 :: go_int) \<le> 461168601842738791
   \<and> 1 \<le> sint (3 :: go_int)
   \<and> sint ((3 - 1) * 20 :: go_int) = 40 \<and> 0 \<le> sint ((3 - 1) * 20 :: go_int)"
proof -
  have u: "urlParse echo_env (URL (search_request ''cat'' ''3''))
             = Inr (URL (search_request ''cat'' ''3''))"
    by (simp add: echo_env_def stub_env_def)
  have p: "Atoi (if Values_Get (Values (URL (search_request ''cat'' ''3''))) ''page'' = []
                 then ''1''
                 else Values_Get (Values (URL (search_request ''cat'' ''3''))) ''page'') = Inr 3"
    by (simp add: search_request_def Values_Get_def Atoi_def is_digit_def)
  have a: "Atoi ''3'' = Inr 3"
    by (simp add: Atoi_def is_digit_def)
  show ?thesis
    using offset_passed [OF u p, of fresh_world] u a
    by (simp add: search_request_def Values_Get_def searchWikipedia_def url_eval)
qed

subsection \<open>Page two of three\<close>

text \<open>
  C1. For the request \<open>/search?q=cat&page=2\<close> against an upstream response with
  \<open>totalhits = 50\<close>, the Search model built by the handler has \<open>TotalPages = 3\<close>,
  \<open>CurrentPage() = 2\<close> and \<open>NextPage = 3\<close>, but \<open>IsLastPage()\<close> is true there, where the
  claim says false: \<open>NextPage\<close> already holds the page after the current one when
  \<open>IsLastPage\<close> compares it with \<open>TotalPages\<close>.
\<close>

theorem page_two_of_three:
  "fst (searchModel (stub_env 50) (search_request ''cat'' ''2'') fresh_world)
     = Inr \<lparr>Query = ''cat'', TotalPages = 3, NextPage = 3, Results = stub_response 50\<rparr>
   \<and> CurrentPage \<lparr>Query = ''cat'', TotalPages = 3, NextPage = 3, Results = stub_response 50\<rparr> = 2
   \<and> IsLastPage \<lparr>Query = ''cat'', TotalPages = 3, NextPage = 3, Results = stub_response 50\<rparr>"
proof -
  have c: "\<lceil>(5 :: rat) / 2\<rceil> = 3"
    by (rule ceiling_unique) simp_all
  show ?thesis
    by (simp add: search_eval page_count_exact c CurrentPage_def IsLastPage_def word_sle_eq)
qed

subsection \<open>Writing an error response\<close>

lemma http_Error_fresh:
  assumes "wroteHeader (ResponseWriter l) = None" and "writeErr (ResponseWriter l) = None"
  shows "written (ResponseWriter (http_Error l msg code))
           = written (ResponseWriter l) @ msg @ [CHR 0x0A]"
    and "wroteHeader (ResponseWriter (http_Error l msg code)) = Some code"
    and "statusCode (http_Error l msg code) = code"
  using assms
  by (simp_all add: http_Error_def lrw_Header_Set_def lrw_WriteHeader_def lrw_Write_def
      Write_def WriteHeader_def Let_def)

lemma searchModel_lrw: "lrw (snd (searchModel env r s)) = lrw s"
  by (simp add: searchModel_def Let_def split: sum.splits)

lemmas handler_eval =
  ServeHTTP_def indexHandler_def searchHandler_def http_NotFound_def http_Error_def
  lrw_Header_Set_def lrw_WriteHeader_def lrw_Write_def Write_def WriteHeader_def
  Buffer_WriteTo_def responseStatus_def log_Println_def path_request_def
  failing_handler_def unavailable_env_def broken_template_env_def

subsection \<open>The logging middleware and a panic\<close>

text \<open>
  Without a panic the middleware appends the completion record, with the status code
  captured by the wrapper.
\<close>

lemma requestLogger_return:
  "requestLogger env (\<lambda>r s. Return () s) w r l =
     Return () \<lparr>lrw = newLoggingResponseWriter
                    (w\<lparr>header := Header_Add (header w) ''X-Correlation-Id'' (xidNew env)\<rparr>),
                lg = emit (Event InfoLevel
                       [F_Str ''method'' (Method r), F_Str ''url'' (RequestURI (URL r)),
                        F_Str ''user_agent'' (UserAgent r), F_Dur ''elapsed_ms'' (elapsed env),
                        F_Int ''status_code'' 200] ''incoming request'')
                     (UpdateContext [F_Str ''correlation_id'' (xidNew env)] l)\<rparr>"
  by (simp add: requestLogger_def Let_def newLoggingResponseWriter_def)

text \<open>
  C3. When the wrapped handler panics, the claim says that the middleware still emits
  the completion record, with status 500, and then panics again. In the code the
  deferred function sets the status to 500 and panics again before it reaches the log
  call: for a handler that runs \<open>g\<close> and then panics with \<open>v\<close>, the middleware panics
  with \<open>v\<close> in the state \<open>g\<close> left, with only the captured status changed to 500. No
  completion record is added to the log.
\<close>

theorem panic_not_logged:
  "requestLogger env (\<lambda>r s. Panic v (g r s)) w r l =
     (let s1 = g (r\<lparr>Context := (Context r)(''correlation_id'' \<mapsto> xidNew env)\<rparr>)
                 \<lparr>lrw = newLoggingResponseWriter
                          (w\<lparr>header := Header_Add (header w) ''X-Correlation-Id'' (xidNew env)\<rparr>),
                  lg = UpdateContext [F_Str ''correlation_id'' (xidNew env)] l\<rparr>
      in Panic v (s1\<lparr>lrw := (lrw s1)\<lparr>statusCode := 500\<rparr>\<rparr>))
   \<and> (case requestLogger env (\<lambda>r s. Panic v s) w r l of
         Panic v1 s1 \<Rightarrow> v1 = v \<and> statusCode (lrw s1) = 500 \<and> events (lg s1) = events l
       | Return u s1 \<Rightarrow> False)"
  by (simp add: requestLogger_def Let_def newLoggingResponseWriter_def UpdateContext_def)

subsection \<open>The adapter\<close>

text \<open>
  C8, as the claim states it, fails. For a handler that returns the error \<open>boom\<close> on
  a fresh response, the body written is \<open>boom\<close> followed by a newline, not exactly the
  message (\<open>http.Error\<close> prints the message with \<open>fmt.Fprintln\<close>). And when the index
  handler returns the error of its failed write (the connection is gone), status 200
  has been set by that write: the adapter's \<open>WriteHeader(500)\<close> changes only the
  status captured for the log, and the body stays empty.
\<close>

theorem error_body_not_the_message:
  "(case ServeHTTP failing_handler (path_request ''/'') fresh_world of
      Return u s \<Rightarrow>
        written (ResponseWriter (lrw s)) = ''boom'' @ [CHR 0x0A]
        \<and> written (ResponseWriter (lrw s)) \<noteq> Error (ErrorString ''boom'')
    | Panic v s \<Rightarrow> False)
   \<and> (case ServeHTTP (indexHandler (stub_env 0)) (path_request ''/'') broken_pipe_world of
      Return u s \<Rightarrow>
        stdlog (lg s) = [''write: broken pipe'']
        \<and> wroteHeader (ResponseWriter (lrw s)) = Some 200
        \<and> written (ResponseWriter (lrw s)) = []
        \<and> statusCode (lrw s) = 500
    | Panic v s \<Rightarrow> False)"
  by (simp add: handler_eval stub_env_def fresh_world_def broken_pipe_world_def
      fresh_writer_def fresh_logger_def newLoggingResponseWriter_def Let_def)

text \<open>
  C8, amended. Whenever a handler returns a non-nil error and nothing has been written
  to the response yet (and the connection still accepts writes), the adapter logs the
  error and writes an HTTP 500 response whose body is the error's message followed by
  a newline. In particular, when the upstream answers with a status other than 200, the
  upstream client returns an error whose message carries the dumped upstream
  response, and the 500 body is \<open>non 200 OK response from Wikipedia API: \<close>, the dump,
  and a newline.
\<close>

theorem error_becomes_500:
  "(fn r s = Return (Some err) s1
      \<and> wroteHeader (ResponseWriter (lrw s1)) = None
      \<and> written (ResponseWriter (lrw s1)) = []
      \<and> writeErr (ResponseWriter (lrw s1)) = None
    \<longrightarrow> (case ServeHTTP fn r s of
           Return u s2 \<Rightarrow>
             stdlog (lg s2) = stdlog (lg s1) @ [Error err]
             \<and> wroteHeader (ResponseWriter (lrw s2)) = Some 500
             \<and> statusCode (lrw s2) = 500
             \<and> written (ResponseWriter (lrw s2)) = Error err @ [CHR 0x0A]
         | Panic v s2 \<Rightarrow> False))
   \<and> (urlParse env (URL r) = Inr u
      \<and> Atoi (if Values_Get (Values u) ''page'' = [] then ''1''
               else Values_Get (Values u) ''page'') = Inr p
      \<and> httpGet env (api_url 20 (Values_Get (Values u) ''q'') ((p - 1) * 20)) = Inr resp
      \<and> StatusCode resp \<noteq> 200
      \<and> wroteHeader (ResponseWriter (lrw s)) = None
      \<and> written (ResponseWriter (lrw s)) = []
      \<and> writeErr (ResponseWriter (lrw s)) = None
    \<longrightarrow> (case ServeHTTP (searchHandler env) r s of
           Return u s2 \<Rightarrow>
             stdlog (lg s2)
               = stdlog (lg s) @ [''non 200 OK response from Wikipedia API: '' @ Dump resp]
             \<and> wroteHeader (ResponseWriter (lrw s2)) = Some 500
             \<and> statusCode (lrw s2) = 500
             \<and> written (ResponseWriter (lrw s2))
               = ''non 200 OK response from Wikipedia API: '' @ Dump resp @ [CHR 0x0A]
         | Panic v s2 \<Rightarrow> False))"
proof (intro conjI impI)
  assume a: "fn r s = Return (Some err) s1
      \<and> wroteHeader (ResponseWriter (lrw s1)) = None
      \<and> written (ResponseWriter (lrw s1)) = []
      \<and> writeErr (ResponseWriter (lrw s1)) = None"
  then show "case ServeHTTP fn r s of
           Return u s2 \<Rightarrow>
             stdlog (lg s2) = stdlog (lg s1) @ [Error err]
             \<and> wroteHeader (ResponseWriter (lrw s2)) = Some 500
             \<and> statusCode (lrw s2) = 500
             \<and> written (ResponseWriter (lrw s2)) = Error err @ [CHR 0x0A]
         | Panic v s2 \<Rightarrow> False"
    by (simp add: ServeHTTP_def http_Error_fresh log_Println_def)
next
  assume a: "urlParse env (URL r) = Inr u
      \<and> Atoi (if Values_Get (Values u) ''page'' = [] then ''1''
               else Values_Get (Values u) ''page'') = Inr p
      \<and> httpGet env (api_url 20 (Values_Get (Values u) ''q'') ((p - 1) * 20)) = Inr resp
      \<and> StatusCode resp \<noteq> 200
      \<and> wroteHeader (ResponseWriter (lrw s)) = None
      \<and> written (ResponseWriter (lrw s)) = []
      \<and> writeErr (ResponseWriter (lrw s)) = None"
  define msg where "msg = ''non 200 OK response from Wikipedia API: '' @ Dump resp"
  from a have m: "fst (searchModel env r s) = Inl (ErrorString msg)"
    by (simp add: searchModel_def searchWikipedia_def Let_def msg_def)
  have l: "lrw (snd (searchModel env r s)) = lrw s"
    by (rule searchModel_lrw)
  from a have g: "stdlog (lg (snd (searchModel env r s))) = stdlog (lg s)"
    by (simp add: searchModel_def searchWikipedia_def Let_def emit_def UpdateContext_def)
  obtain x s1 where sm: "searchModel env r s = (x, s1)"
    by (cases "searchModel env r s")
  with m l g have h: "searchHandler env r s = Return (Some (ErrorString msg)) s1"
    and s1: "lrw s1 = lrw s" "stdlog (lg s1) = stdlog (lg s)"
    by (simp_all add: searchHandler_def)
  from a s1 show "case ServeHTTP (searchHandler env) r s of
           Return u s2 \<Rightarrow>
             stdlog (lg s2)
               = stdlog (lg s) @ [''non 200 OK response from Wikipedia API: '' @ Dump resp]
             \<and> wroteHeader (ResponseWriter (lrw s2)) = Some 500
             \<and> statusCode (lrw s2) = 500
             \<and> written (ResponseWriter (lrw s2))
               = ''non 200 OK response from Wikipedia API: '' @ Dump resp @ [CHR 0x0A]
         | Panic v s2 \<Rightarrow> False"
    by (simp add: ServeHTTP_def h http_Error_fresh log_Println_def msg_def)
qed

theorem error_becomes_500_witness:
  "failing_handler (search_request ''cat'' ''2'') fresh_world
     = Return (Some (ErrorString ''boom'')) fresh_world
   \<and> wroteHeader (ResponseWriter (lrw fresh_world)) = None
   \<and> written (ResponseWriter (lrw fresh_world)) = []
   \<and> writeErr (ResponseWriter (lrw fresh_world)) = None
   \<and> (case ServeHTTP failing_handler (search_request ''cat'' ''2'') fresh_world of
         Return u s2 \<Rightarrow>
           stdlog (lg s2) = [''boom'']
           \<and> wroteHeader (ResponseWriter (lrw s2)) = Some 500
           \<and> statusCode (lrw s2) = 500
           \<and> written (ResponseWriter (lrw s2)) = ''boom'' @ [CHR 0x0A]
       | Panic v s2 \<Rightarrow> False)
   \<and> urlParse unavailable_env (URL (search_request ''cat'' ''2''))
       = Inr (URL (search_request ''cat'' ''2''))
   \<and> Atoi ''2'' = Inr 2
   \<and> httpGet unavailable_env (api_url 20 ''cat'' ((2 - 1) * 20))
       = Inr \<lparr>StatusCode = 503, Body = Inr [], Dump = ''HTTP/1.1 503 Service Unavailable''\<rparr>
   \<and> (case ServeHTTP (searchHandler unavailable_env) (search_request ''cat'' ''2'') fresh_world of
         Return u s2 \<Rightarrow>
           stdlog (lg s2)
             = [''non 200 OK response from Wikipedia API: HTTP/1.1 503 Service Unavailable'']
           \<and> wroteHeader (ResponseWriter (lrw s2)) = Some 500
           \<and> statusCode (lrw s2) = 500
           \<and> written (ResponseWriter (lrw s2))
             = ''non 200 OK response from Wikipedia API: HTTP/1.1 503 Service Unavailable''
               @ [CHR 0x0A]
       | Panic v s2 \<Rightarrow> False)"
  using error_becomes_500 [where fn = failing_handler and r = "search_request ''cat'' ''2''"
      and s = fresh_world and ?s1.0 = fresh_world and err = "ErrorString ''boom''"
      and env = unavailable_env and u = "URL (search_request ''cat'' ''2'')" and p = 2
      and resp = "\<lparr>StatusCode = 503, Body = Inr [], Dump = ''HTTP/1.1 503 Service Unavailable''\<rparr>"]
  by (simp add: failing_handler_def unavailable_env_def stub_env_def search_request_def
      fresh_world_def fresh_writer_def fresh_logger_def newLoggingResponseWriter_def
      Values_Get_def Atoi_def is_digit_def split: outcome.splits)

subsection \<open>The index handler\<close>

text \<open>
  C9. For a request whose path is exactly \<open>/\<close>, the index handler executes the
  template with no data and, the template having rendered, writes the page: the
  response has status 200 and the rendered page as its body. For any other path it
  responds 404 and returns no error, so the adapter produces no 500.
\<close>

theorem indexHandler_paths:
  "(Path (URL r) = ''/''
      \<and> tplExecute env None = (page, None)
      \<and> wroteHeader (ResponseWriter (lrw s)) = None
      \<and> written (ResponseWriter (lrw s)) = []
      \<and> writeErr (ResponseWriter (lrw s)) = None
    \<longrightarrow> (case indexHandler env r s of
           Return err s1 \<Rightarrow>
             err = None
             \<and> responseStatus (ResponseWriter (lrw s1)) = 200
             \<and> written (ResponseWriter (lrw s1)) = page
             \<and> ServeHTTP (indexHandler env) r s = Return () s1
         | Panic v s1 \<Rightarrow> False))
   \<and> (Path (URL r) \<noteq> ''/''
      \<and> wroteHeader (ResponseWriter (lrw s)) = None
      \<and> written (ResponseWriter (lrw s)) = []
      \<and> writeErr (ResponseWriter (lrw s)) = None
    \<longrightarrow> (case indexHandler env r s of
           Return err s1 \<Rightarrow>
             err = None
             \<and> responseStatus (ResponseWriter (lrw s1)) = 404
             \<and> statusCode (lrw s1) = 404
             \<and> written (ResponseWriter (lrw s1)) = ''404 page not found'' @ [CHR 0x0A]
             \<and> ServeHTTP (indexHandler env) r s = Return () s1
         | Panic v s1 \<Rightarrow> False))"
  by (auto simp: indexHandler_def ServeHTTP_def http_NotFound_def http_Error_fresh
      Buffer_WriteTo_def lrw_Write_def Write_def WriteHeader_def responseStatus_def Let_def)

theorem indexHandler_paths_witness:
  "Path (URL (path_request ''/'')) = ''/''
   \<and> tplExecute (stub_env 0) None = (''<html></html>'', None)
   \<and> wroteHeader (ResponseWriter (lrw fresh_world)) = None
   \<and> written (ResponseWriter (lrw fresh_world)) = []
   \<and> writeErr (ResponseWriter (lrw fresh_world)) = None
   \<and> (case indexHandler (stub_env 0) (path_request ''/'') fresh_world of
         Return err s1 \<Rightarrow>
           err = None \<and> responseStatus (ResponseWriter (lrw s1)) = 200
           \<and> written (ResponseWriter (lrw s1)) = ''<html></html>''
       | Panic v s1 \<Rightarrow> False)
   \<and> Path (URL (path_request ''/foo'')) \<noteq> ''/''
   \<and> (case indexHandler (stub_env 0) (path_request ''/foo'') fresh_world of
         Return err s1 \<Rightarrow>
           err = None \<and> responseStatus (ResponseWriter (lrw s1)) = 404
           \<and> statusCode (lrw s1) = 404
           \<and> written (ResponseWriter (lrw s1)) = ''404 page not found'' @ [CHR 0x0A]
       | Panic v s1 \<Rightarrow> False)"
  using indexHandler_paths [where r = "path_request ''/''" and env = "stub_env 0"
      and s = fresh_world and page = "''<html></html>''"]
    indexHandler_paths [where r = "path_request ''/foo''" and env = "stub_env 0"
      and s = fresh_world and page = "''<html></html>''"]
  by (simp add: path_request_def stub_env_def fresh_world_def fresh_writer_def
      fresh_logger_def newLoggingResponseWriter_def split: outcome.splits)

subsection \<open>Rendering into a buffer\<close>

text \<open>
  C10. Both handlers execute the template into a buffer and copy the buffer to the
  response only when the execution has succeeded: on a response to which nothing had
  been written, a successful execution makes the rendered page the body, and the
  handler returns no error. When the execution fails, whatever it had produced, the
  handler returns the error and leaves the response as it was; what the adapter then
  writes (the error message and its newline, with status 500) is the entire body.
\<close>

theorem template_failure_writes_nothing:
  "(Path (URL r) = ''/'' \<and> tplExecute env None = (out, Some err)
    \<longrightarrow> indexHandler env r s = Return (Some err) s)
   \<and> (searchModel env r s = (Inr m, s1) \<and> tplExecute env (Some m) = (out, Some err)
    \<longrightarrow> searchHandler env r s = Return (Some err) s1 \<and> lrw s1 = lrw s)
   \<and> ((Path (URL r) = ''/'' \<and> tplExecute env None = (out, Some err) \<and> h = indexHandler env
        \<or> searchModel env r s = (Inr m, s1) \<and> tplExecute env (Some m) = (out, Some err)
          \<and> h = searchHandler env)
      \<and> wroteHeader (ResponseWriter (lrw s)) = None
      \<and> written (ResponseWriter (lrw s)) = []
      \<and> writeErr (ResponseWriter (lrw s)) = None
    \<longrightarrow> (case ServeHTTP h r s of
           Return u s2 \<Rightarrow>
             wroteHeader (ResponseWriter (lrw s2)) = Some 500
             \<and> written (ResponseWriter (lrw s2)) = Error err @ [CHR 0x0A]
         | Panic v s2 \<Rightarrow> False))
   \<and> ((Path (URL r) = ''/'' \<and> tplExecute env None = (page, None) \<and> h = indexHandler env
        \<or> searchModel env r s = (Inr m, s1) \<and> tplExecute env (Some m) = (page, None)
          \<and> h = searchHandler env)
      \<and> wroteHeader (ResponseWriter (lrw s)) = None
      \<and> written (ResponseWriter (lrw s)) = []
      \<and> writeErr (ResponseWriter (lrw s)) = None
    \<longrightarrow> (case h r s of
           Return e s2 \<Rightarrow>
             e = None
             \<and> written (ResponseWriter (lrw s2)) = page
             \<and> responseStatus (ResponseWriter (lrw s2)) = 200
             \<and> ServeHTTP h r s = Return () s2
         | Panic v s2 \<Rightarrow> False))"
proof (intro conjI impI)
  assume "Path (URL r) = ''/'' \<and> tplExecute env None = (out, Some err)"
  then show "indexHandler env r s = Return (Some err) s"
    by (simp add: indexHandler_def)
next
  assume a: "searchModel env r s = (Inr m, s1) \<and> tplExecute env (Some m) = (out, Some err)"
  then show "searchHandler env r s = Return (Some err) s1"
    by (simp add: searchHandler_def)
  from a show "lrw s1 = lrw s"
    using searchModel_lrw [of env r s] by simp
next
  assume a: "(Path (URL r) = ''/'' \<and> tplExecute env None = (out, Some err) \<and> h = indexHandler env
        \<or> searchModel env r s = (Inr m, s1) \<and> tplExecute env (Some m) = (out, Some err)
          \<and> h = searchHandler env)
      \<and> wroteHeader (ResponseWriter (lrw s)) = None
      \<and> written (ResponseWriter (lrw s)) = []
      \<and> writeErr (ResponseWriter (lrw s)) = None"
  then consider
      (index) "h r s = Return (Some err) s"
    | (search) "h r s = Return (Some err) s1" "lrw s1 = lrw s"
    using searchModel_lrw [of env r s]
    by (auto simp: indexHandler_def searchHandler_def)
  then show "case ServeHTTP h r s of
           Return u s2 \<Rightarrow>
             wroteHeader (ResponseWriter (lrw s2)) = Some 500
             \<and> written (ResponseWriter (lrw s2)) = Error err @ [CHR 0x0A]
         | Panic v s2 \<Rightarrow> False"
  proof cases
    case index
    with a show ?thesis
      by (simp add: ServeHTTP_def http_Error_fresh)
  next
    case search
    with a show ?thesis
      by (simp add: ServeHTTP_def http_Error_fresh)
  qed
next
  assume a: "(Path (URL r) = ''/'' \<and> tplExecute env None = (page, None) \<and> h = indexHandler env
        \<or> searchModel env r s = (Inr m, s1) \<and> tplExecute env (Some m) = (page, None)
          \<and> h = searchHandler env)
      \<and> wroteHeader (ResponseWriter (lrw s)) = None
      \<and> written (ResponseWriter (lrw s)) = []
      \<and> writeErr (ResponseWriter (lrw s)) = None"
  then have fresh: "wroteHeader (ResponseWriter (lrw s)) = None"
      "written (ResponseWriter (lrw s)) = []" "writeErr (ResponseWriter (lrw s)) = None"
    by simp_all
  from a consider
      (index) "Path (URL r) = ''/''" "tplExecute env None = (page, None)" "h = indexHandler env"
    | (search) "searchModel env r s = (Inr m, s1)" "tplExecute env (Some m) = (page, None)"
        "h = searchHandler env"
    by auto
  then show "case h r s of
           Return e s2 \<Rightarrow>
             e = None
             \<and> written (ResponseWriter (lrw s2)) = page
             \<and> responseStatus (ResponseWriter (lrw s2)) = 200
             \<and> ServeHTTP h r s = Return () s2
         | Panic v s2 \<Rightarrow> False"
  proof cases
    case index
    with fresh show ?thesis
      by (auto simp: indexHandler_def ServeHTTP_def Buffer_WriteTo_def lrw_Write_def
          Write_def WriteHeader_def responseStatus_def Let_def)
  next
    case search
    have "lrw s1 = lrw s"
      using searchModel_lrw [of env r s] search by simp
    with search fresh show ?thesis
      by (auto simp: searchHandler_def ServeHTTP_def Buffer_WriteTo_def lrw_Write_def
          Write_def WriteHeader_def responseStatus_def Let_def)
  qed
qed

theorem template_failure_writes_nothing_witness:
  "Path (URL (path_request ''/'')) = ''/''
   \<and> tplExecute broken_template_env None = (''<html>'', Some (ErrorString ''template: boom''))
   \<and> indexHandler broken_template_env (path_request ''/'') fresh_world
       = Return (Some (ErrorString ''template: boom'')) fresh_world
   \<and> wroteHeader (ResponseWriter (lrw fresh_world)) = None
   \<and> written (ResponseWriter (lrw fresh_world)) = []
   \<and> writeErr (ResponseWriter (lrw fresh_world)) = None
   \<and> (case ServeHTTP (indexHandler broken_template_env) (path_request ''/'') fresh_world of
         Return u s2 \<Rightarrow>
           wroteHeader (ResponseWriter (lrw s2)) = Some 500
           \<and> written (ResponseWriter (lrw s2)) = ''template: boom'' @ [CHR 0x0A]
       | Panic v s2 \<Rightarrow> False)
   \<and> fst (searchModel broken_template_env (search_request ''cat'' ''2'') fresh_world)
       = Inr \<lparr>Query = ''cat'', TotalPages = 3, NextPage = 3, Results = stub_response 50\<rparr>
   \<and> (case searchHandler broken_template_env (search_request ''cat'' ''2'') fresh_world of
         Return e s2 \<Rightarrow> e = Some (ErrorString ''template: boom'') \<and> lrw s2 = lrw fresh_world
       | Panic v s2 \<Rightarrow> False)
   \<and> (case ServeHTTP (searchHandler broken_template_env) (search_request ''cat'' ''2'')
               fresh_world of
         Return u s2 \<Rightarrow>
           wroteHeader (ResponseWriter (lrw s2)) = Some 500
           \<and> written (ResponseWriter (lrw s2)) = ''template: boom'' @ [CHR 0x0A]
       | Panic v s2 \<Rightarrow> False)
   \<and> tplExecute (stub_env 50) None = (''<html></html>'', None)
   \<and> (case indexHandler (stub_env 50) (path_request ''/'') fresh_world of
         Return e s2 \<Rightarrow>
           e = None \<and> written (ResponseWriter (lrw s2)) = ''<html></html>''
           \<and> responseStatus (ResponseWriter (lrw s2)) = 200
       | Panic v s2 \<Rightarrow> False)
   \<and> fst (searchModel (stub_env 50) (search_request ''cat'' ''2'') fresh_world)
       = Inr \<lparr>Query = ''cat'', TotalPages = 3, NextPage = 3, Results = stub_response 50\<rparr>
   \<and> (case searchHandler (stub_env 50) (search_request ''cat'' ''2'') fresh_world of
         Return e s2 \<Rightarrow>
           e = None \<and> written (ResponseWriter (lrw s2)) = ''<html></html>''
           \<and> responseStatus (ResponseWriter (lrw s2)) = 200
       | Panic v s2 \<Rightarrow> False)"
proof -
  let ?m = "\<lparr>Query = ''cat'', TotalPages = 3, NextPage = 3, Results = stub_response 50\<rparr>"
  have c: "\<lceil>(5 :: rat) / 2\<rceil> = 3"
    by (rule ceiling_unique) simp_all
  obtain s1 where sm: "searchModel broken_template_env (search_request ''cat'' ''2'') fresh_world
      = (Inr ?m, s1)"
    by (simp add: search_eval broken_template_env_def page_count_exact c)
  obtain s3 where sm': "searchModel (stub_env 50) (search_request ''cat'' ''2'') fresh_world
      = (Inr ?m, s3)"
    by (simp add: search_eval page_count_exact c)
  have t: "tplExecute broken_template_env d = (''<html>'', Some (ErrorString ''template: boom''))"
    for d
    by (simp add: broken_template_env_def stub_env_def)
  have t': "tplExecute (stub_env 50) d = (''<html></html>'', None)" for d
    by (simp add: stub_env_def)
  have f: "wroteHeader (ResponseWriter (lrw fresh_world)) = None
      \<and> written (ResponseWriter (lrw fresh_world)) = []
      \<and> writeErr (ResponseWriter (lrw fresh_world)) = None"
    by (simp add: fresh_world_def fresh_writer_def newLoggingResponseWriter_def)
  have p: "Path (URL (path_request ''/'')) = ''/''"
    by (simp add: path_request_def)
  note i = template_failure_writes_nothing [where r = "path_request ''/''"
      and env = broken_template_env and s = fresh_world and out = "''<html>''"
      and err = "ErrorString ''template: boom''" and h = "indexHandler broken_template_env"
      and m = ?m and ?s1.0 = s1 and page = "[]"]
  note j = template_failure_writes_nothing [where r = "search_request ''cat'' ''2''"
      and env = broken_template_env and s = fresh_world and out = "''<html>''"
      and err = "ErrorString ''template: boom''" and h = "searchHandler broken_template_env"
      and m = ?m and ?s1.0 = s1 and page = "[]"]
  note k = template_failure_writes_nothing [where r = "path_request ''/''"
      and env = "stub_env 50" and s = fresh_world and out = "[]"
      and err = "ErrorString []" and h = "indexHandler (stub_env 50)"
      and m = ?m and ?s1.0 = s3 and page = "''<html></html>''"]
  note l = template_failure_writes_nothing [where r = "search_request ''cat'' ''2''"
      and env = "stub_env 50" and s = fresh_world and out = "[]"
      and err = "ErrorString []" and h = "searchHandler (stub_env 50)"
      and m = ?m and ?s1.0 = s3 and page = "''<html></html>''"]
  have index: "indexHandler broken_template_env (path_request ''/'') fresh_world
       = Return (Some (ErrorString ''template: boom'')) fresh_world
     \<and> (case ServeHTTP (indexHandler broken_template_env) (path_request ''/'') fresh_world of
         Return u s2 \<Rightarrow>
           wroteHeader (ResponseWriter (lrw s2)) = Some 500
           \<and> written (ResponseWriter (lrw s2)) = ''template: boom'' @ [CHR 0x0A]
       | Panic v s2 \<Rightarrow> False)"
    using i t f p by (simp split: outcome.splits)
  have search: "(case searchHandler broken_template_env (search_request ''cat'' ''2'') fresh_world of
         Return e s2 \<Rightarrow> e = Some (ErrorString ''template: boom'') \<and> lrw s2 = lrw fresh_world
       | Panic v s2 \<Rightarrow> False)
     \<and> (case ServeHTTP (searchHandler broken_template_env) (search_request ''cat'' ''2'')
               fresh_world of
         Return u s2 \<Rightarrow>
           wroteHeader (ResponseWriter (lrw s2)) = Some 500
           \<and> written (ResponseWriter (lrw s2)) = ''template: boom'' @ [CHR 0x0A]
       | Panic v s2 \<Rightarrow> False)"
    using j sm t f by (simp split: outcome.splits)
  have index_ok: "case indexHandler (stub_env 50) (path_request ''/'') fresh_world of
         Return e s2 \<Rightarrow>
           e = None \<and> written (ResponseWriter (lrw s2)) = ''<html></html>''
           \<and> responseStatus (ResponseWriter (lrw s2)) = 200
       | Panic v s2 \<Rightarrow> False"
    using k t' f p by (simp split: outcome.splits)
  have search_ok: "case searchHandler (stub_env 50) (search_request ''cat'' ''2'') fresh_world of
         Return e s2 \<Rightarrow>
           e = None \<and> written (ResponseWriter (lrw s2)) = ''<html></html>''
           \<and> responseStatus (ResponseWriter (lrw s2)) = 200
       | Panic v s2 \<Rightarrow> False"
    using l sm' t' f by (simp split: outcome.splits)
  show ?thesis
    using index search index_ok search_ok sm sm' t t' f p by simp
qed

end
